theory Spec2Isabelle
  imports Main
begin

section \<open>The custom field form of shelf.nu (app/components/custom-fields/form.tsx)\<close>

text \<open>
  The file holds two things: the validation schema \<open>NewCustomFieldFormSchema\<close>, built
  from zod combinators, and the React component \<open>CustomFieldForm\<close>, a render function
  of its props, its two pieces of local state and the values of the hooks it reads.
  The schema is embedded as a function from a submitted JavaScript value to either the
  list of issues or the typed output; the component as a function to a tree of elements.
\<close>

subsection \<open>Submitted values and the field type enum\<close>

text \<open>
  A JavaScript value as the schema receives it. Only the runtime type of a number is
  ever inspected by this schema, so a number carries an integer. A \<open>char\<close> of a string
  stands for one code unit, and \<open>length\<close> for the string's \<open>.length\<close>.
\<close>

datatype jsval =
    JUndefined
  | JNull
  | JBool bool
  | JNum int
  | JStr string
  | JArr "jsval list"
  | JObj "(string \<times> jsval) list"

text \<open>
  \<open>CustomFieldType\<close> is the enum generated by the ORM. Its members are the keys of
  \<open>FIELD_TYPE_DESCRIPTION\<close>, whose type \<open>{ [key in CustomFieldType]: string }\<close>
  demands exactly one entry per member. At run time the enum is an object that maps
  each member's name to the string of the same name.
\<close>

datatype CustomFieldType = TEXT | OPTION | BOOLEAN | DATE | MULTILINE_TEXT

fun CustomFieldType_value :: "CustomFieldType \<Rightarrow> string" where
  "CustomFieldType_value TEXT = ''TEXT''"
| "CustomFieldType_value OPTION = ''OPTION''"
| "CustomFieldType_value BOOLEAN = ''BOOLEAN''"
| "CustomFieldType_value DATE = ''DATE''"
| "CustomFieldType_value MULTILINE_TEXT = ''MULTILINE_TEXT''"

definition CustomFieldType_members :: "CustomFieldType list" where
  "CustomFieldType_members = [TEXT, OPTION, BOOLEAN, DATE, MULTILINE_TEXT]"

text \<open>\<open>Object.values(CustomFieldType)\<close> searched for a string, as \<open>indexOf\<close> does.\<close>

definition CustomFieldType_of_value :: "string \<Rightarrow> CustomFieldType option" where
  "CustomFieldType_of_value s =
     find (\<lambda>t. CustomFieldType_value t = s) CustomFieldType_members"

subsection \<open>The zod combinators the schema uses\<close>

datatype path_elem = Key string | Index nat

datatype issue_code = invalid_type | too_small | invalid_enum_value

text \<open>
  An issue of a failed parse. \<open>message\<close> is \<open>Some m\<close> when the schema supplies the
  message and \<open>None\<close> when it is left to zod's default error map.
\<close>

record issue =
  code :: issue_code
  path :: "path_elem list"
  message :: "string option"

type_synonym 'a parse_result = "issue list + 'a"

type_synonym 'a zod_type = "path_elem list \<Rightarrow> jsval \<Rightarrow> 'a parse_result"

definition issues_of :: "'a parse_result \<Rightarrow> issue list" where
  "issues_of r = (case r of Inl is \<Rightarrow> is | Inr _ \<Rightarrow> [])"

text \<open>\<open>z.string()\<close>: anything but a string is an \<open>invalid_type\<close> issue.\<close>

definition z_string :: "string zod_type" where
  "z_string p v =
     (case v of
        JStr s \<Rightarrow> Inr s
      | _ \<Rightarrow> Inl [\<lparr>code = invalid_type, path = p, message = None\<rparr>])"

text \<open>\<open>.min(n, msg)\<close> on a string type: the check runs once the value is a string.\<close>

definition z_min :: "nat \<Rightarrow> string \<Rightarrow> string zod_type \<Rightarrow> string zod_type" where
  "z_min n msg inner p v =
     (case inner p v of
        Inl is \<Rightarrow> Inl is
      | Inr s \<Rightarrow>
          if length s < n
          then Inl [\<lparr>code = too_small, path = p, message = Some msg\<rparr>]
          else Inr s)"

text \<open>\<open>.optional()\<close>: \<open>undefined\<close> passes as \<open>undefined\<close> (\<open>None\<close>).\<close>

definition z_optional :: "'a zod_type \<Rightarrow> 'a option zod_type" where
  "z_optional inner p v =
     (case v of
        JUndefined \<Rightarrow> Inr None
      | _ \<Rightarrow> (case inner p v of Inl is \<Rightarrow> Inl is | Inr x \<Rightarrow> Inr (Some x)))"

text \<open>\<open>.transform(f)\<close>: \<open>f\<close> runs on the value of a successful parse.\<close>

definition z_transform :: "('a \<Rightarrow> 'b) \<Rightarrow> 'a zod_type \<Rightarrow> 'b zod_type" where
  "z_transform f inner p v =
     (case inner p v of Inl is \<Rightarrow> Inl is | Inr x \<Rightarrow> Inr (f x))"

text \<open>
  \<open>z.nativeEnum(CustomFieldType)\<close>: the input must be a string or a number, and
  then one of the enum object's values, all of which are strings.
\<close>

definition z_nativeEnum :: "CustomFieldType zod_type" where
  "z_nativeEnum p v =
     (case v of
        JStr s \<Rightarrow>
          (case CustomFieldType_of_value s of
             Some t \<Rightarrow> Inr t
           | None \<Rightarrow> Inl [\<lparr>code = invalid_enum_value, path = p, message = None\<rparr>])
      | JNum _ \<Rightarrow> Inl [\<lparr>code = invalid_enum_value, path = p, message = None\<rparr>]
      | _ \<Rightarrow> Inl [\<lparr>code = invalid_type, path = p, message = None\<rparr>])"

text \<open>Results of several parses put together: every issue is kept, in order.\<close>

fun collect :: "'a parse_result list \<Rightarrow> 'a list parse_result" where
  "collect [] = Inr []"
| "collect (r # rs) =
     (case (r, collect rs) of
        (Inr x, Inr xs) \<Rightarrow> Inr (x # xs)
      | (a, b) \<Rightarrow> Inl (issues_of a @ issues_of b))"

text \<open>\<open>z.array(elem)\<close>: element \<open>i\<close> is parsed under the path extended by \<open>i\<close>.\<close>

definition z_array :: "'a zod_type \<Rightarrow> 'a list zod_type" where
  "z_array elem p v =
     (case v of
        JArr xs \<Rightarrow> collect (map (\<lambda>(i, x). elem (p @ [Index i]) x) (enumerate 0 xs))
      | _ \<Rightarrow> Inl [\<lparr>code = invalid_type, path = p, message = None\<rparr>])"

subsection \<open>NewCustomFieldFormSchema\<close>

text \<open>\<open>null\<close> as a value of its own, apart from \<open>undefined\<close>.\<close>

datatype 'a nullable = Null | NotNull 'a

text \<open>\<open>(val) => val || null\<close>: \<open>undefined\<close> and the empty string are falsy.\<close>

definition helpText_transform :: "string option \<Rightarrow> string nullable" where
  "helpText_transform val =
     (case val of
        None \<Rightarrow> Null
      | Some s \<Rightarrow> if s = [] then Null else NotNull s)"

text \<open>\<open>(val) => (val === "on" ? true : false)\<close>\<close>

definition on_transform :: "string option \<Rightarrow> bool" where
  "on_transform val = (if val = Some ''on'' then True else False)"

definition name_schema :: "string zod_type" where
  "name_schema = z_min 2 ''Name is required'' z_string"

definition helpText_schema :: "string nullable zod_type" where
  "helpText_schema = z_transform helpText_transform (z_optional z_string)"

definition type_schema :: "CustomFieldType zod_type" where
  "type_schema = z_nativeEnum"

definition required_schema :: "bool zod_type" where
  "required_schema = z_transform on_transform (z_optional z_string)"

definition active_schema :: "bool zod_type" where
  "active_schema = z_transform on_transform (z_optional z_string)"

definition organizationId_schema :: "string zod_type" where
  "organizationId_schema = z_string"

definition options_schema :: "string list option zod_type" where
  "options_schema = z_optional (z_array z_string)"

text \<open>The output of a successful parse.\<close>

record NewCustomFieldFormData =
  name :: string
  helpText :: "string nullable"
  type :: CustomFieldType
  required :: bool
  active :: bool
  organizationId :: string
  options :: "string list option"

text \<open>Reading a key of an object: a missing key reads as \<open>undefined\<close>.\<close>

definition field :: "(string \<times> jsval) list \<Rightarrow> string \<Rightarrow> jsval" where
  "field kvs k = (case map_of kvs k of None \<Rightarrow> JUndefined | Some v \<Rightarrow> v)"

text \<open>
  \<open>z.object({...})\<close>: the input must be an object; each key of the shape is parsed
  under its own path, in the order of the shape; keys outside the shape are dropped;
  the parse succeeds when no key has an issue and otherwise reports all of them.
\<close>

definition NewCustomFieldFormSchema :: "jsval \<Rightarrow> NewCustomFieldFormData parse_result" where
  "NewCustomFieldFormSchema input =
     (case input of
        JObj kvs \<Rightarrow>
          (let r_name = name_schema [Key ''name''] (field kvs ''name'');
               r_helpText = helpText_schema [Key ''helpText''] (field kvs ''helpText'');
               r_type = type_schema [Key ''type''] (field kvs ''type'');
               r_required = required_schema [Key ''required''] (field kvs ''required'');
               r_active = active_schema [Key ''active''] (field kvs ''active'');
               r_organizationId =
                 organizationId_schema [Key ''organizationId''] (field kvs ''organizationId'');
               r_options = options_schema [Key ''options''] (field kvs ''options'')
           in case (r_name, r_helpText, r_type, r_required, r_active, r_organizationId,
                    r_options) of
                (Inr n, Inr h, Inr t, Inr r, Inr a, Inr org, Inr opts) \<Rightarrow>
                  Inr \<lparr>name = n, helpText = h, type = t, required = r, active = a,
                       organizationId = org, options = opts\<rparr>
              | _ \<Rightarrow>
                  Inl (issues_of r_name @ issues_of r_helpText @ issues_of r_type
                       @ issues_of r_required @ issues_of r_active
                       @ issues_of r_organizationId @ issues_of r_options))
      | _ \<Rightarrow> Inl [\<lparr>code = invalid_type, path = [], message = None\<rparr>])"

subsection \<open>What the component reads\<close>

text \<open>
  The props, each optional. \<open>CustomField["helpText"]\<close> is \<open>string | null\<close>; the other
  attributes are not nullable.
\<close>

record Props =
  options :: "string list option"
  name :: "string option"
  helpText :: "string nullable option"
  required :: "bool option"
  type :: "CustomFieldType option"
  active :: "bool option"
  isEdit :: "bool option"

text \<open>The two \<open>useState\<close> cells.\<close>

record State =
  options :: "string list"
  selectedType :: CustomFieldType

text \<open>The phase that \<open>useNavigation().state\<close> reports.\<close>

datatype navigation_state = idle | submitting | loading

text \<open>
  The values of the other hooks and imports at one render: the navigation phase, the
  message of \<open>zo.errors.name()\<close> if there is one, the organization id, and the table
  \<open>FIELD_TYPE_NAME\<close> of \<open>~/utils/custom-fields\<close> (an object with one key per field
  type, kept here in the order of its keys).
\<close>

record Hooks =
  navigation :: navigation_state
  zo_errors_name_message :: "string option"
  useOrganizationId :: string
  FIELD_TYPE_NAME :: "(CustomFieldType \<times> string) list"

text \<open>
  Modelled from the spec: \<open>isFormProcessing\<close> is defined in another module,
  \<open>~/utils\<close>. The spec has the navigation collaborator report a tri-state
  status (idle/submitting/loading), from which the disabled presentation is derived
  while a submission is in flight: processing is every phase but idle.
\<close>

definition isFormProcessing :: "navigation_state \<Rightarrow> bool" where
  "isFormProcessing s = (s = submitting \<or> s = loading)"

text \<open>
  Modelled from the spec: \<open>zodFieldIsRequired\<close> is defined in another module,
  \<open>~/utils/zod\<close>. The spec has the validation schema expose a per-field
  "is required" predicate: a field is required when its rule rejects an absent value.
\<close>

definition zodFieldIsRequired :: "'a zod_type \<Rightarrow> bool" where
  "zodFieldIsRequired f = isl (f [] JUndefined)"

text \<open>\<open>useState(opts || [])\<close> and \<open>useState(type || "TEXT")\<close>: every array and every
  member of the enum is truthy, so the fallback is taken for \<open>undefined\<close> only.\<close>

definition initial_State :: "Props \<Rightarrow> State" where
  "initial_State props =
     \<lparr>State.options = (case Props.options props of None \<Rightarrow> [] | Some opts \<Rightarrow> opts),
      selectedType = (case Props.type props of None \<Rightarrow> TEXT | Some t \<Rightarrow> t)\<rparr>"

definition FIELD_TYPE_DESCRIPTION :: "CustomFieldType \<Rightarrow> string" where
  "FIELD_TYPE_DESCRIPTION t =
     (case t of
        TEXT \<Rightarrow> ''A place to store short information for your asset. For instance: Serial numbers, notes or anything you wish. No input validation. Any text is acceptable.''
      | OPTION \<Rightarrow> ''A dropdown list of predefined options.''
      | BOOLEAN \<Rightarrow> ''A true/false or yes/no value.''
      | DATE \<Rightarrow> ''A date picker for selecting a date.''
      | MULTILINE_TEXT \<Rightarrow> ''A place to store longer, multiline information for your asset. For instance: Descriptions, comments, or detailed notes.'')"

subsection \<open>The event handlers\<close>

text \<open>
  \<open>Array.prototype.splice(start, deleteCount)\<close> without inserted items, as the
  array is left: a negative start counts from the end, and both arguments are clamped
  to the array.
\<close>

definition splice :: "int \<Rightarrow> int \<Rightarrow> 'a list \<Rightarrow> 'a list" where
  "splice start deleteCount xs =
     (let len = int (length xs);
          actualStart = (if start < 0 then max (len + start) 0 else min start len);
          actualDeleteCount = min (max deleteCount 0) (len - actualStart)
      in take (nat actualStart) xs @ drop (nat (actualStart + actualDeleteCount)) xs)"

text \<open>
  \<open>onRemove\<close>: \<open>options.splice(i, 1); setOptions([...options])\<close>. The index is the
  integer the option-list editor passes; the new state is the array as \<open>splice\<close> left it.
\<close>

definition onRemove :: "int \<Rightarrow> State \<Rightarrow> State" where
  "onRemove i st = st\<lparr>State.options := splice i 1 (State.options st)\<rparr>"

text \<open>\<open>onAdd\<close>: \<open>setOptions([...options, o])\<close>\<close>

definition onAdd :: "string \<Rightarrow> State \<Rightarrow> State" where
  "onAdd o' st = st\<lparr>State.options := State.options st @ [o']\<rparr>"

text \<open>\<open>onValueChange\<close>: \<open>setSelectedType(val)\<close>\<close>

definition onValueChange :: "CustomFieldType \<Rightarrow> State \<Rightarrow> State" where
  "onValueChange val st = st\<lparr>selectedType := val\<rparr>"

subsection \<open>The rendered tree\<close>

datatype handler = UpdateTitle | OnValueChange | OnRemove | OnAdd

text \<open>
  The value of a JSX attribute. A handler is named, its effect is the function above;
  \<open>zo.ref\<close> is opaque.
\<close>

datatype 'n prop_value =
    PUndefined
  | PBool bool
  | PNum nat
  | PStr string
  | PStrs "string list"
  | PHandler handler
  | PRef
  | PNode 'n

datatype node =
    RNull
  | RText string
  | RElem string "(string \<times> node prop_value) list" "node list"

text \<open>A number of a field name, in decimal.\<close>

function nat_to_string :: "nat \<Rightarrow> string" where
  "nat_to_string n =
     (if n < 10 then [''0123456789'' ! n]
      else nat_to_string (n div 10) @ [''0123456789'' ! (n mod 10)])"
  by pat_completeness auto
termination
  by (relation "measure id") auto

text \<open>\<open>zo.fields.options(i)()\<close>: the name of the \<open>i\<close>-th entry of the array field.\<close>

definition zo_fields_options :: "nat \<Rightarrow> string" where
  "zo_fields_options i = ''options['' @ nat_to_string i @ '']''"

text \<open>\<open>x || ""\<close> on an optional string: \<open>undefined\<close> is falsy, and so is \<open>""\<close>.\<close>

definition or_empty :: "string option \<Rightarrow> string" where
  "or_empty x = (case x of None \<Rightarrow> [] | Some s \<Rightarrow> s)"

text \<open>The same on \<open>string | null | undefined\<close>.\<close>

definition or_empty_nullable :: "string nullable option \<Rightarrow> string" where
  "or_empty_nullable x = (case x of Some (NotNull s) \<Rightarrow> s | _ \<Rightarrow> [])"

text \<open>An optional boolean as an attribute.\<close>

definition bool_prop :: "bool option \<Rightarrow> 'n prop_value" where
  "bool_prop b = (case b of None \<Rightarrow> PUndefined | Some v \<Rightarrow> PBool v)"

text \<open>
  \<open>Object.keys(FIELD_TYPE_NAME).map(...)\<close>: one \<open>SelectItem\<close> per key, labelled by
  the entry under that key.
\<close>

definition select_items :: "(CustomFieldType \<times> string) list \<Rightarrow> node list" where
  "select_items tbl =
     map (\<lambda>value.
            RElem ''SelectItem''
              [(''value'', PStr (CustomFieldType_value value)),
               (''key'', PStr (CustomFieldType_value value))]
              [RElem ''span'' [(''className'', PStr ''mr-4 text-[14px] text-gray-700'')]
                 [case map_of tbl value of None \<Rightarrow> RNull | Some label \<Rightarrow> RText label]])
         (map fst tbl)"

text \<open>\<open>options.map((op, i) => <input ... />)\<close>: one hidden input per option.\<close>

definition option_inputs :: "string list \<Rightarrow> node list" where
  "option_inputs opts =
     map (\<lambda>(i, op).
            RElem ''input''
              [(''key'', PNum i), (''type'', PStr ''hidden''),
               (''name'', PStr (zo_fields_options i)), (''value'', PStr op)] [])
         (enumerate 0 opts)"

text \<open>
  The component: the tree it returns for the props, the state and the hook values of
  one render. The flag \<open>isEdit\<close> defaults to \<open>false\<close>.
\<close>

definition CustomFieldForm :: "Hooks \<Rightarrow> Props \<Rightarrow> State \<Rightarrow> node" where
  "CustomFieldForm hooks props st =
     (let disabled = isFormProcessing (navigation hooks);
          options = State.options st;
          selectedType = selectedType st;
          isEdit = (case isEdit props of None \<Rightarrow> False | Some b \<Rightarrow> b);
          organizationId = useOrganizationId hooks
      in
      RElem ''Form''
        [(''ref'', PRef), (''method'', PStr ''post''),
         (''className'', PStr ''flex w-full flex-col gap-2''),
         (''encType'', PStr ''multipart/form-data'')]
        [RElem ''FormRow''
           [(''rowLabel'', PStr ''Name''), (''className'', PStr ''border-b-0 pb-[10px]''),
            (''required'', PBool (zodFieldIsRequired name_schema))]
           [RElem ''Input''
              [(''label'', PStr ''Name''), (''hideLabel'', PBool True),
               (''name'', PStr ''name''), (''disabled'', PBool disabled),
               (''error'',
                  (case zo_errors_name_message hooks of
                     None \<Rightarrow> PUndefined | Some m \<Rightarrow> PStr m)),
               (''autoFocus'', PBool True), (''onChange'', PHandler UpdateTitle),
               (''className'', PStr ''w-full''),
               (''defaultValue'', PStr (or_empty (Props.name props))),
               (''placeholder'', PStr ''Choose a field name''),
               (''required'', PBool (zodFieldIsRequired name_schema))]
              []],
         RElem ''div'' []
           [RElem ''label'' [(''className'', PStr ''lg:hidden'')] [RText ''Type''],
            RElem ''FormRow''
              [(''rowLabel'', PStr ''Type''),
               (''className'', PStr ''border-b-0 pb-[10px] pt-[6px]''),
               (''required'', PBool (zodFieldIsRequired type_schema))]
              [RElem ''Select''
                 [(''name'', PStr ''type''),
                  (''defaultValue'', PStr (CustomFieldType_value selectedType)),
                  (''disabled'', PBool disabled),
                  (''onValueChange'', PHandler OnValueChange)]
                 [RElem ''SelectTrigger''
                    [(''disabled'', PBool isEdit), (''className'', PStr ''px-3.5 py-3''),
                     (''placeholder'', PStr ''Choose a field type'')]
                    [RElem ''SelectValue'' [] []],
                  RElem ''SelectContent''
                    [(''position'', PStr ''popper''),
                     (''className'', PStr ''w-full min-w-[300px]''),
                     (''align'', PStr ''start'')]
                    [RElem ''div'' [(''className'', PStr '' max-h-[320px] overflow-auto'')]
                       (select_items (FIELD_TYPE_NAME hooks))]],
               RElem ''div''
                 [(''className'',
                   PStr ''mt-2 flex-1 grow rounded-xl border px-6 py-5 text-[14px] text-gray-600 '')]
                 [RElem ''p'' [] [RText (FIELD_TYPE_DESCRIPTION selectedType)]]],
            (if selectedType = OPTION
             then RElem ''Fragment'' []
                    [RElem ''FormRow''
                       [(''rowLabel'', PStr []), (''className'', PStr ''mt-0 border-b-0 pt-0'')]
                       (RElem ''OptionBuilder''
                          [(''onRemove'', PHandler OnRemove), (''options'', PStrs options),
                           (''onAdd'', PHandler OnAdd)]
                          []
                        # option_inputs options)]
             else RNull)],
         RElem ''FormRow'' [(''rowLabel'', PStr []), (''className'', PStr ''border-b-0 pt-2'')]
           [RElem ''div'' [(''className'', PStr ''flex items-center gap-3'')]
              [RElem ''Switch''
                 [(''name'', PStr ''required''), (''disabled'', PBool disabled),
                  (''defaultChecked'', bool_prop (Props.required props))]
                 [],
               RElem ''label'' [(''className'', PStr ''text-base font-medium text-gray-700'')]
                 [RText ''Required'']]],
         RElem ''FormRow'' [(''rowLabel'', PStr []), (''className'', PStr ''border-b-0 pt-2'')]
           [RElem ''div'' [(''className'', PStr ''flex items-center gap-3'')]
              [RElem ''Switch''
                 [(''name'', PStr ''active''), (''disabled'', PBool disabled),
                  (''defaultChecked'',
                   PBool (case Props.active props of None \<Rightarrow> True | Some a \<Rightarrow> a))]
                 [],
               RElem ''div'' []
                 [RElem ''label'' [(''className'', PStr ''text-base font-medium text-gray-700'')]
                    [RText ''Active''],
                  RElem ''p'' [(''className'', PStr ''text-[14px] text-gray-600'')]
                    [RText ''Deactivating a field will no longer show it on the asset form and page'']]]],
         RElem ''div'' []
           [RElem ''FormRow''
              [(''rowLabel'', PStr ''Help Text''),
               (''subHeading'',
                PNode (RElem ''p'' []
                  [RText ''This text will function as a help text that is visible when filling the field''])),
               (''required'', PBool (zodFieldIsRequired helpText_schema))]
              [RElem ''Input''
                 [(''inputType'', PStr ''textarea''), (''label'', PStr ''Help Text''),
                  (''name'', PStr ''helpText''),
                  (''defaultValue'', PStr (or_empty_nullable (Props.helpText props))),
                  (''placeholder'', PStr ''Add a help text for your custom field.''),
                  (''disabled'', PBool disabled), (''data-test-id'', PStr ''fieldHelpText''),
                  (''className'', PStr ''w-full''), (''hideLabel'', PBool True),
                  (''required'', PBool (zodFieldIsRequired helpText_schema))]
                 []]],
         RElem ''input''
           [(''type'', PStr ''hidden''), (''name'', PStr ''organizationId''),
            (''value'', PStr organizationId)]
           [],
         RElem ''div'' [(''className'', PStr ''text-right'')]
           [RElem ''Button'' [(''type'', PStr ''submit''), (''disabled'', PBool disabled)]
              [if disabled then RElem ''Spinner'' [] [] else RText ''Save'']]])"

subsection \<open>Reading a rendered tree\<close>

text \<open>Every node of a tree, the root first, in document order.\<close>

fun descendants :: "node \<Rightarrow> node list" where
  "descendants RNull = [RNull]"
| "descendants (RText s) = [RText s]"
| "descendants (RElem t ps cs) = RElem t ps cs # concat (map descendants cs)"

fun has_tag :: "string \<Rightarrow> node \<Rightarrow> bool" where
  "has_tag t (RElem t' ps cs) = (t' = t)"
| "has_tag t _ = False"

text \<open>An attribute of an element; one that is not set reads as \<open>undefined\<close>.\<close>

fun attribute :: "string \<Rightarrow> node \<Rightarrow> node prop_value" where
  "attribute k (RElem t ps cs) = (case map_of ps k of None \<Rightarrow> PUndefined | Some v \<Rightarrow> v)"
| "attribute k _ = PUndefined"

fun children :: "node \<Rightarrow> node list" where
  "children (RElem t ps cs) = cs"
| "children _ = []"

definition elements :: "string \<Rightarrow> node \<Rightarrow> node list" where
  "elements t n = filter (has_tag t) (descendants n)"

text \<open>The elements of a tag that carry a given \<open>name\<close> attribute.\<close>

definition named :: "string \<Rightarrow> string \<Rightarrow> node \<Rightarrow> node list" where
  "named t nm n = filter (\<lambda>e. attribute ''name'' e = PStr nm) (elements t n)"

text \<open>
  The elements of a tree that submit an entry of the array field \<open>options\<close>: those
  whose \<open>name\<close> attribute starts with \<open>options[\<close>.
\<close>

definition is_option_field :: "node \<Rightarrow> bool" where
  "is_option_field e =
     (case attribute ''name'' e of PStr s \<Rightarrow> take 8 s = ''options['' | _ \<Rightarrow> False)"

definition option_fields :: "node \<Rightarrow> node list" where
  "option_fields n = filter is_option_field (descendants n)"

text \<open>The \<open>name\<close> and \<open>disabled\<close> attributes of the elements of one tag.\<close>

definition disabled_by_name :: "string \<Rightarrow> node \<Rightarrow> (node prop_value \<times> node prop_value) list" where
  "disabled_by_name t n =
     map (\<lambda>e. (attribute ''name'' e, attribute ''disabled'' e)) (elements t n)"

section \<open>Properties of the schema\<close>

subsection \<open>How the object schema puts its fields together\<close>

lemma issues_of_Inl: "issues_of (Inl is) = is"
  by (simp add: issues_of_def)

lemma issues_of_not_isl: "\<not> isl r \<Longrightarrow> issues_of r = []"
  by (cases r) (simp_all add: issues_of_def)

lemma isl_issues_of: "isl r \<Longrightarrow> r = Inl (issues_of r)"
  by (cases r) (simp_all add: issues_of_def)

lemma schema_success:
  assumes "NewCustomFieldFormSchema (JObj kvs) = Inr d"
  shows "name_schema [Key ''name''] (field kvs ''name'') = Inr (NewCustomFieldFormData.name d)"
    and "helpText_schema [Key ''helpText''] (field kvs ''helpText'') =
         Inr (NewCustomFieldFormData.helpText d)"
    and "type_schema [Key ''type''] (field kvs ''type'') = Inr (NewCustomFieldFormData.type d)"
    and "required_schema [Key ''required''] (field kvs ''required'') =
         Inr (NewCustomFieldFormData.required d)"
    and "active_schema [Key ''active''] (field kvs ''active'') =
         Inr (NewCustomFieldFormData.active d)"
    and "organizationId_schema [Key ''organizationId''] (field kvs ''organizationId'') =
         Inr (organizationId d)"
    and "options_schema [Key ''options''] (field kvs ''options'') =
         Inr (NewCustomFieldFormData.options d)"
  using assms
  by (auto simp: NewCustomFieldFormSchema_def Let_def split: sum.splits)

lemma schema_isl:
  "isl (NewCustomFieldFormSchema (JObj kvs)) \<longleftrightarrow>
     isl (name_schema [Key ''name''] (field kvs ''name''))
   \<or> isl (helpText_schema [Key ''helpText''] (field kvs ''helpText''))
   \<or> isl (type_schema [Key ''type''] (field kvs ''type''))
   \<or> isl (required_schema [Key ''required''] (field kvs ''required''))
   \<or> isl (active_schema [Key ''active''] (field kvs ''active''))
   \<or> isl (organizationId_schema [Key ''organizationId''] (field kvs ''organizationId''))
   \<or> isl (options_schema [Key ''options''] (field kvs ''options''))"
  by (auto simp: NewCustomFieldFormSchema_def Let_def split: sum.splits)

lemma schema_issues:
  "issues_of (NewCustomFieldFormSchema (JObj kvs)) =
     issues_of (name_schema [Key ''name''] (field kvs ''name''))
   @ issues_of (helpText_schema [Key ''helpText''] (field kvs ''helpText''))
   @ issues_of (type_schema [Key ''type''] (field kvs ''type''))
   @ issues_of (required_schema [Key ''required''] (field kvs ''required''))
   @ issues_of (active_schema [Key ''active''] (field kvs ''active''))
   @ issues_of (organizationId_schema [Key ''organizationId''] (field kvs ''organizationId''))
   @ issues_of (options_schema [Key ''options''] (field kvs ''options''))"
  by (auto simp: NewCustomFieldFormSchema_def Let_def issues_of_def split: sum.splits)

subsection \<open>The checkbox fields\<close>

lemma on_transform_iff: "on_transform val \<longleftrightarrow> val = Some ''on''"
  by (simp add: on_transform_def)

lemma on_schema_string:
  "z_transform on_transform (z_optional z_string) p (JStr s) = Inr (s = ''on'')"
  by (simp add: z_transform_def z_optional_def z_string_def on_transform_def)

lemma on_schema_undefined:
  "z_transform on_transform (z_optional z_string) p JUndefined = Inr False"
  by (simp add: z_transform_def z_optional_def z_string_def on_transform_def)

lemma on_schema_Inr:
  "z_transform on_transform (z_optional z_string) p v = Inr b \<Longrightarrow> b \<longleftrightarrow> v = JStr ''on''"
  by (cases v) (auto simp: z_transform_def z_optional_def z_string_def on_transform_iff)

text \<open>
  Claim C6. The schema resolves \<open>required\<close> to true exactly when the submitted string
  is \<open>"on"\<close>: every other string and an absent field resolve to false, and whenever
  the whole submission parses, its \<open>required\<close> is true if and only if the submitted
  value was \<open>"on"\<close>.
\<close>

theorem required_true_iff_on:
  "required_schema p (JStr s) = Inr (s = ''on'')
   \<and> required_schema p JUndefined = Inr False
   \<and> (NewCustomFieldFormSchema (JObj kvs) = Inr d \<longrightarrow>
        (NewCustomFieldFormData.required d \<longleftrightarrow> field kvs ''required'' = JStr ''on''))"
proof (intro conjI impI)
  show "required_schema p (JStr s) = Inr (s = ''on'')"
    by (simp add: required_schema_def on_schema_string)
  show "required_schema p JUndefined = Inr False"
    by (simp add: required_schema_def on_schema_undefined)
next
  assume "NewCustomFieldFormSchema (JObj kvs) = Inr d"
  then have "required_schema [Key ''required''] (field kvs ''required'')
      = Inr (NewCustomFieldFormData.required d)"
    by (rule schema_success)
  then show "NewCustomFieldFormData.required d \<longleftrightarrow> field kvs ''required'' = JStr ''on''"
    unfolding required_schema_def by (rule on_schema_Inr)
qed

theorem required_true_iff_on_witness:
  "NewCustomFieldFormSchema (JObj [(''name'', JStr ''Serial''), (''type'', JStr ''TEXT''),
      (''required'', JStr ''on''), (''organizationId'', JStr ''org1'')])
   = Inr \<lparr>NewCustomFieldFormData.name = ''Serial'', helpText = Null, type = TEXT,
          required = True, active = False, organizationId = ''org1'', options = None\<rparr>
   \<and> field [(''name'', JStr ''Serial''), (''type'', JStr ''TEXT''),
      (''required'', JStr ''on''), (''organizationId'', JStr ''org1'')] ''required''
     = JStr ''on''"
  using required_true_iff_on [of "[]" "''on''"
      "[(''name'', JStr ''Serial''), (''type'', JStr ''TEXT''),
        (''required'', JStr ''on''), (''organizationId'', JStr ''org1'')]"
      "\<lparr>NewCustomFieldFormData.name = ''Serial'', helpText = Null, type = TEXT,
        required = True, active = False, organizationId = ''org1'', options = None\<rparr>"]
  by (simp add: NewCustomFieldFormSchema_def field_def name_schema_def helpText_schema_def
        type_schema_def required_schema_def active_schema_def organizationId_schema_def
        options_schema_def z_min_def z_string_def z_optional_def z_transform_def
        z_nativeEnum_def CustomFieldType_of_value_def CustomFieldType_members_def
        helpText_transform_def on_transform_def)

subsection \<open>The type field\<close>

lemma type_schema_accepts:
  "(\<exists>t. type_schema p v = Inr t) \<longleftrightarrow>
   v \<in> JStr ` {''TEXT'', ''MULTILINE_TEXT'', ''BOOLEAN'', ''DATE'', ''OPTION''}"
  by (cases v)
     (auto simp: type_schema_def z_nativeEnum_def CustomFieldType_of_value_def
                 CustomFieldType_members_def split: option.splits if_splits)

lemma type_schema_rejects:
  "s \<notin> {''TEXT'', ''MULTILINE_TEXT'', ''BOOLEAN'', ''DATE'', ''OPTION''} \<Longrightarrow>
   type_schema p (JStr s) = Inl [\<lparr>code = invalid_enum_value, path = p, message = None\<rparr>]"
  by (auto simp: type_schema_def z_nativeEnum_def CustomFieldType_of_value_def
                 CustomFieldType_members_def split: option.splits if_splits)

lemma type_schema_value:
  "type_schema p (JStr s) = Inr t \<Longrightarrow> CustomFieldType_value t = s"
  by (auto simp: type_schema_def z_nativeEnum_def CustomFieldType_of_value_def
                 CustomFieldType_members_def split: option.splits if_splits)

text \<open>
  Claim C9. The \<open>type\<close> rule accepts a value if and only if it is one of the five
  strings \<open>TEXT\<close>, \<open>MULTILINE_TEXT\<close>, \<open>BOOLEAN\<close>, \<open>DATE\<close>, \<open>OPTION\<close>, and then yields
  the member of that name; for any other string the parse of the submission fails
  with an issue whose path is the field \<open>type\<close>.
\<close>

theorem type_accepts_exactly_enum_tokens:
  "((\<exists>t. type_schema p v = Inr t) \<longleftrightarrow>
      v \<in> JStr ` {''TEXT'', ''MULTILINE_TEXT'', ''BOOLEAN'', ''DATE'', ''OPTION''})
   \<and> (type_schema p (JStr s) = Inr t \<longrightarrow> CustomFieldType_value t = s)
   \<and> (field kvs ''type'' = JStr s'
        \<and> s' \<notin> {''TEXT'', ''MULTILINE_TEXT'', ''BOOLEAN'', ''DATE'', ''OPTION''} \<longrightarrow>
        isl (NewCustomFieldFormSchema (JObj kvs))
        \<and> \<lparr>code = invalid_enum_value, path = [Key ''type''], message = None\<rparr>
            \<in> set (issues_of (NewCustomFieldFormSchema (JObj kvs))))"
proof (intro conjI impI)
  show "(\<exists>t. type_schema p v = Inr t) \<longleftrightarrow>
      v \<in> JStr ` {''TEXT'', ''MULTILINE_TEXT'', ''BOOLEAN'', ''DATE'', ''OPTION''}"
    by (rule type_schema_accepts)
next
  assume "type_schema p (JStr s) = Inr t"
  then show "CustomFieldType_value t = s" by (rule type_schema_value)
next
  assume "field kvs ''type'' = JStr s'
        \<and> s' \<notin> {''TEXT'', ''MULTILINE_TEXT'', ''BOOLEAN'', ''DATE'', ''OPTION''}"
  then have r: "type_schema [Key ''type''] (field kvs ''type'')
      = Inl [\<lparr>code = invalid_enum_value, path = [Key ''type''], message = None\<rparr>]"
    by (simp add: type_schema_rejects)
  show "isl (NewCustomFieldFormSchema (JObj kvs))"
    by (simp add: schema_isl r)
  show "\<lparr>code = invalid_enum_value, path = [Key ''type''], message = None\<rparr>
            \<in> set (issues_of (NewCustomFieldFormSchema (JObj kvs)))"
    by (simp add: schema_issues r issues_of_Inl)
qed

theorem type_accepts_exactly_enum_tokens_witness:
  "isl (NewCustomFieldFormSchema (JObj [(''name'', JStr ''Serial''), (''type'', JStr ''NUMBER''),
          (''organizationId'', JStr ''org1'')]))
   \<and> \<lparr>code = invalid_enum_value, path = [Key ''type''], message = None\<rparr>
       \<in> set (issues_of (NewCustomFieldFormSchema (JObj [(''name'', JStr ''Serial''),
            (''type'', JStr ''NUMBER''), (''organizationId'', JStr ''org1'')])))
   \<and> type_schema [Key ''type''] (JStr ''DATE'') = Inr DATE"
  using type_accepts_exactly_enum_tokens [of "[Key ''type'']" "JStr ''DATE''" "''DATE''" DATE
      "[(''name'', JStr ''Serial''), (''type'', JStr ''NUMBER''),
        (''organizationId'', JStr ''org1'')]" "''NUMBER''"]
  by (simp add: field_def type_schema_def z_nativeEnum_def CustomFieldType_of_value_def
                 CustomFieldType_members_def)

subsection \<open>The name field\<close>

text \<open>
  Claim C5. When the submitted name is the empty string and every other field passes
  its own rule, the parse fails with exactly one issue: the minimum-length issue of
  the field \<open>name\<close>, with the schema's message; no other field is reported.
\<close>

theorem empty_name_reports_only_min_length:
  assumes "field kvs ''name'' = JStr []"
    and "\<not> isl (helpText_schema [Key ''helpText''] (field kvs ''helpText''))"
    and "\<not> isl (type_schema [Key ''type''] (field kvs ''type''))"
    and "\<not> isl (required_schema [Key ''required''] (field kvs ''required''))"
    and "\<not> isl (active_schema [Key ''active''] (field kvs ''active''))"
    and "\<not> isl (organizationId_schema [Key ''organizationId''] (field kvs ''organizationId''))"
    and "\<not> isl (options_schema [Key ''options''] (field kvs ''options''))"
  shows "NewCustomFieldFormSchema (JObj kvs) =
         Inl [\<lparr>code = too_small, path = [Key ''name''], message = Some ''Name is required''\<rparr>]"
proof -
  have n: "name_schema [Key ''name''] (field kvs ''name'') =
      Inl [\<lparr>code = too_small, path = [Key ''name''], message = Some ''Name is required''\<rparr>]"
    by (simp add: assms(1) name_schema_def z_min_def z_string_def)
  have "isl (NewCustomFieldFormSchema (JObj kvs))"
    by (simp add: schema_isl n)
  then have "NewCustomFieldFormSchema (JObj kvs) =
      Inl (issues_of (NewCustomFieldFormSchema (JObj kvs)))"
    by (rule isl_issues_of)
  also have "issues_of (NewCustomFieldFormSchema (JObj kvs)) =
      [\<lparr>code = too_small, path = [Key ''name''], message = Some ''Name is required''\<rparr>]"
    using assms(2-7) by (simp add: schema_issues n issues_of_not_isl issues_of_Inl)
  finally show ?thesis .
qed

theorem empty_name_reports_only_min_length_witness:
  "field [(''name'', JStr []), (''helpText'', JStr []), (''type'', JStr ''OPTION''),
          (''active'', JStr ''on''), (''organizationId'', JStr ''org1''),
          (''options'', JArr [JStr ''red'', JStr ''green''])] ''name'' = JStr []
   \<and> NewCustomFieldFormSchema
        (JObj [(''name'', JStr []), (''helpText'', JStr []), (''type'', JStr ''OPTION''),
               (''active'', JStr ''on''), (''organizationId'', JStr ''org1''),
               (''options'', JArr [JStr ''red'', JStr ''green''])])
     = Inl [\<lparr>code = too_small, path = [Key ''name''], message = Some ''Name is required''\<rparr>]"
  using empty_name_reports_only_min_length
    [of "[(''name'', JStr []), (''helpText'', JStr []), (''type'', JStr ''OPTION''),
          (''active'', JStr ''on''), (''organizationId'', JStr ''org1''),
          (''options'', JArr [JStr ''red'', JStr ''green''])]"]
  by (simp add: field_def helpText_schema_def type_schema_def required_schema_def
        active_schema_def organizationId_schema_def options_schema_def z_string_def
        z_optional_def z_transform_def z_nativeEnum_def z_array_def
        CustomFieldType_of_value_def CustomFieldType_members_def issues_of_def)

section \<open>Properties of the rendered form\<close>

subsection \<open>The two parts of the tree that depend on a list\<close>

lemma filter_tag_select_items:
  "t \<noteq> ''SelectItem'' \<Longrightarrow> t \<noteq> ''span'' \<Longrightarrow>
   filter (has_tag t) (concat (map descendants (select_items tbl))) = []"
  by (auto simp: filter_empty_conv select_items_def split: option.splits)

lemma filter_named_select_items:
  "t \<noteq> ''SelectItem'' \<Longrightarrow> t \<noteq> ''span'' \<Longrightarrow>
   filter (\<lambda>e. has_tag t e \<and> P e) (concat (map descendants (select_items tbl))) = []"
  by (auto simp: filter_empty_conv select_items_def split: option.splits)

lemma concat_map_singleton: "concat (map (\<lambda>x. [g x]) xs) = map g xs"
  by (induction xs) simp_all

lemma descendants_option_inputs:
  "concat (map descendants (option_inputs opts)) = option_inputs opts"
  by (simp add: option_inputs_def comp_def case_prod_beta concat_map_singleton)

lemma filter_tag_option_inputs:
  "filter (has_tag t) (option_inputs opts) = (if t = ''input'' then option_inputs opts else [])"
  by (auto simp: option_inputs_def filter_empty_conv filter_id_conv)

lemma filter_named_option_inputs:
  "t \<noteq> ''input'' \<Longrightarrow> filter (\<lambda>e. has_tag t e \<and> P e) (option_inputs opts) = []"
  by (auto simp: option_inputs_def filter_empty_conv)

lemma option_field_select_items:
  "filter is_option_field (concat (map descendants (select_items tbl))) = []"
  by (auto simp: filter_empty_conv select_items_def is_option_field_def split: option.splits)

lemma option_field_option_inputs:
  "filter is_option_field (option_inputs opts) = option_inputs opts"
  by (auto simp: option_inputs_def filter_id_conv is_option_field_def zo_fields_options_def)

lemmas render_simps =
  CustomFieldForm_def Let_def elements_def named_def
  filter_tag_select_items filter_named_select_items
  descendants_option_inputs filter_tag_option_inputs filter_named_option_inputs

lemmas schema_simps =
  NewCustomFieldFormSchema_def field_def name_schema_def helpText_schema_def
  type_schema_def required_schema_def active_schema_def organizationId_schema_def
  options_schema_def z_min_def z_string_def z_optional_def z_transform_def
  z_nativeEnum_def z_array_def CustomFieldType_of_value_def CustomFieldType_members_def
  helpText_transform_def on_transform_def

subsection \<open>The active flag\<close>

text \<open>
  Claim C1, as the spec states it, fails: a submission without the field \<open>active\<close>
  parses, and its \<open>active\<close> is false.
\<close>

theorem active_absent_is_not_true:
  "field [(''name'', JStr ''Serial''), (''type'', JStr ''TEXT''),
          (''organizationId'', JStr ''org1'')] ''active'' = JUndefined
   \<and> NewCustomFieldFormSchema (JObj [(''name'', JStr ''Serial''), (''type'', JStr ''TEXT''),
          (''organizationId'', JStr ''org1'')])
     = Inr \<lparr>NewCustomFieldFormData.name = ''Serial'', helpText = Null, type = TEXT,
            required = False, active = False, organizationId = ''org1'', options = None\<rparr>"
  by (simp add: schema_simps)

text \<open>
  Claim C1, amended. An absent \<open>active\<close> resolves to false: the parsed \<open>active\<close> is
  true exactly when the submitted value is \<open>"on"\<close>, as for \<open>required\<close>. The default
  of true is that of the rendered switch: with no initial \<open>active\<close> value, the switch
  named \<open>active\<close> is rendered with \<open>defaultChecked\<close> true.
\<close>

theorem active_absent_resolves_false:
  "active_schema p JUndefined = Inr False
   \<and> (NewCustomFieldFormSchema (JObj kvs) = Inr d \<longrightarrow>
        (NewCustomFieldFormData.active d \<longleftrightarrow> field kvs ''active'' = JStr ''on''))
   \<and> (field kvs ''active'' = JUndefined \<and> NewCustomFieldFormSchema (JObj kvs) = Inr d \<longrightarrow>
        \<not> NewCustomFieldFormData.active d)
   \<and> (Props.active props = None \<longrightarrow>
        map (attribute ''defaultChecked'')
          (named ''Switch'' ''active'' (CustomFieldForm hooks props st)) = [PBool True])"
proof (intro conjI impI)
  show "active_schema p JUndefined = Inr False"
    by (simp add: active_schema_def on_schema_undefined)
next
  assume "NewCustomFieldFormSchema (JObj kvs) = Inr d"
  then have "active_schema [Key ''active''] (field kvs ''active'')
      = Inr (NewCustomFieldFormData.active d)"
    by (rule schema_success)
  then show "NewCustomFieldFormData.active d \<longleftrightarrow> field kvs ''active'' = JStr ''on''"
    unfolding active_schema_def by (rule on_schema_Inr)
next
  assume a: "field kvs ''active'' = JUndefined \<and> NewCustomFieldFormSchema (JObj kvs) = Inr d"
  then have "active_schema [Key ''active''] (field kvs ''active'')
      = Inr (NewCustomFieldFormData.active d)"
    using schema_success(5) [of kvs d] by blast
  then show "\<not> NewCustomFieldFormData.active d"
    using a by (simp add: active_schema_def on_schema_undefined)
next
  assume "Props.active props = None"
  then show "map (attribute ''defaultChecked'')
          (named ''Switch'' ''active'' (CustomFieldForm hooks props st)) = [PBool True]"
    by (simp add: render_simps)
qed

theorem active_absent_resolves_false_witness:
  "field [(''name'', JStr ''Serial''), (''type'', JStr ''TEXT''),
          (''organizationId'', JStr ''org1'')] ''active'' = JUndefined
   \<and> NewCustomFieldFormSchema (JObj [(''name'', JStr ''Serial''), (''type'', JStr ''TEXT''),
          (''organizationId'', JStr ''org1'')])
     = Inr \<lparr>NewCustomFieldFormData.name = ''Serial'', helpText = Null, type = TEXT,
            required = False, active = False, organizationId = ''org1'', options = None\<rparr>
   \<and> map (attribute ''defaultChecked'')
        (named ''Switch'' ''active''
          (CustomFieldForm
             \<lparr>navigation = idle, zo_errors_name_message = None, useOrganizationId = ''org1'',
              FIELD_TYPE_NAME = [(TEXT, ''Text''), (OPTION, ''Option'')]\<rparr>
             \<lparr>Props.options = None, name = None, helpText = None, required = None,
              type = None, active = None, isEdit = None\<rparr>
             \<lparr>State.options = [], selectedType = TEXT\<rparr>)) = [PBool True]"
  using active_absent_resolves_false
    [of "[Key ''active'']"
        "[(''name'', JStr ''Serial''), (''type'', JStr ''TEXT''),
          (''organizationId'', JStr ''org1'')]"
        "\<lparr>NewCustomFieldFormData.name = ''Serial'', helpText = Null, type = TEXT,
          required = False, active = False, organizationId = ''org1'', options = None\<rparr>"
        "\<lparr>Props.options = None, name = None, helpText = None, required = None,
          type = None, active = None, isEdit = None\<rparr>"
        "\<lparr>navigation = idle, zo_errors_name_message = None, useOrganizationId = ''org1'',
          FIELD_TYPE_NAME = [(TEXT, ''Text''), (OPTION, ''Option'')]\<rparr>"
        "\<lparr>State.options = [], selectedType = TEXT\<rparr>"]
  by (simp add: schema_simps)

subsection \<open>The help text\<close>

text \<open>
  Claim C7. An absent \<open>helpText\<close> is normalized to \<open>null\<close>, and so is the empty
  string, which is what the form submits for it: with no initial help text (absent or
  \<open>null\<close>) the input named \<open>helpText\<close> is rendered with the empty string as its
  default value.
\<close>

theorem helpText_absent_is_null:
  "helpText_schema p JUndefined = Inr Null
   \<and> helpText_schema p (JStr []) = Inr Null
   \<and> (field kvs ''helpText'' \<in> {JUndefined, JStr []}
        \<and> NewCustomFieldFormSchema (JObj kvs) = Inr d \<longrightarrow>
        NewCustomFieldFormData.helpText d = Null)
   \<and> (Props.helpText props \<in> {None, Some Null} \<longrightarrow>
        map (attribute ''defaultValue'')
          (named ''Input'' ''helpText'' (CustomFieldForm hooks props st)) = [PStr []])"
proof (intro conjI impI)
  show u: "helpText_schema p JUndefined = Inr Null" for p
    by (simp add: helpText_schema_def z_transform_def z_optional_def helpText_transform_def)
  show e: "helpText_schema p (JStr []) = Inr Null" for p
    by (simp add: helpText_schema_def z_transform_def z_optional_def z_string_def
          helpText_transform_def)
  assume a: "field kvs ''helpText'' \<in> {JUndefined, JStr []}
        \<and> NewCustomFieldFormSchema (JObj kvs) = Inr d"
  then have "helpText_schema [Key ''helpText''] (field kvs ''helpText'')
      = Inr (NewCustomFieldFormData.helpText d)"
    using schema_success(2) [of kvs d] by blast
  then show "NewCustomFieldFormData.helpText d = Null"
    using a u e by auto
next
  assume "Props.helpText props \<in> {None, Some Null}"
  then show "map (attribute ''defaultValue'')
          (named ''Input'' ''helpText'' (CustomFieldForm hooks props st)) = [PStr []]"
    by (auto simp: render_simps or_empty_nullable_def)
qed

theorem helpText_absent_is_null_witness:
  "NewCustomFieldFormSchema (JObj [(''name'', JStr ''Serial''), (''helpText'', JStr []),
          (''type'', JStr ''TEXT''), (''organizationId'', JStr ''org1'')])
     = Inr \<lparr>NewCustomFieldFormData.name = ''Serial'', helpText = Null, type = TEXT,
            required = False, active = False, organizationId = ''org1'', options = None\<rparr>
   \<and> map (attribute ''defaultValue'')
        (named ''Input'' ''helpText''
          (CustomFieldForm
             \<lparr>navigation = idle, zo_errors_name_message = None, useOrganizationId = ''org1'',
              FIELD_TYPE_NAME = [(TEXT, ''Text''), (OPTION, ''Option'')]\<rparr>
             \<lparr>Props.options = None, name = Some ''Serial'', helpText = Some Null,
              required = Some False, type = Some TEXT, active = Some True, isEdit = Some True\<rparr>
             \<lparr>State.options = [], selectedType = TEXT\<rparr>)) = [PStr []]"
  using helpText_absent_is_null
    [of "[Key ''helpText'']"
        "[(''name'', JStr ''Serial''), (''helpText'', JStr []),
          (''type'', JStr ''TEXT''), (''organizationId'', JStr ''org1'')]"
        "\<lparr>NewCustomFieldFormData.name = ''Serial'', helpText = Null, type = TEXT,
          required = False, active = False, organizationId = ''org1'', options = None\<rparr>"
        "\<lparr>Props.options = None, name = Some ''Serial'', helpText = Some Null,
          required = Some False, type = Some TEXT, active = Some True, isEdit = Some True\<rparr>"
        "\<lparr>navigation = idle, zo_errors_name_message = None, useOrganizationId = ''org1'',
          FIELD_TYPE_NAME = [(TEXT, ''Text''), (OPTION, ''Option'')]\<rparr>"
        "\<lparr>State.options = [], selectedType = TEXT\<rparr>"]
  by (simp add: schema_simps)

subsection \<open>Disabling while a submission is in flight\<close>

text \<open>
  Claim C2, as the spec states it, fails: while the navigation is submitting, the
  option-list editor is rendered without any \<open>disabled\<close> attribute, and so are the
  hidden inputs (the one of the option and the one of the organization id).
\<close>

theorem option_builder_receives_no_disabled:
  "isFormProcessing submitting
   \<and> map (attribute ''disabled'')
       (elements ''OptionBuilder''
          (CustomFieldForm
             \<lparr>navigation = submitting, zo_errors_name_message = None,
              useOrganizationId = ''org1'',
              FIELD_TYPE_NAME = [(TEXT, ''Text''), (OPTION, ''Option'')]\<rparr>
             \<lparr>Props.options = None, name = None, helpText = None, required = None,
              type = None, active = None, isEdit = None\<rparr>
             \<lparr>State.options = [''red''], selectedType = OPTION\<rparr>))
     = [PUndefined]
   \<and> map (attribute ''disabled'')
       (elements ''input''
          (CustomFieldForm
             \<lparr>navigation = submitting, zo_errors_name_message = None,
              useOrganizationId = ''org1'',
              FIELD_TYPE_NAME = [(TEXT, ''Text''), (OPTION, ''Option'')]\<rparr>
             \<lparr>Props.options = None, name = None, helpText = None, required = None,
              type = None, active = None, isEdit = None\<rparr>
             \<lparr>State.options = [''red''], selectedType = OPTION\<rparr>))
     = [PUndefined, PUndefined]"
  by (simp add: isFormProcessing_def render_simps option_inputs_def enumerate_eq_zip)

text \<open>
  Claim C2, amended. While the navigation is submitting or loading, the name input,
  the type select, the required and active switches, the help text input and the
  submit button are rendered with \<open>disabled\<close> true, and the submit button renders a
  spinner in place of its label \<open>Save\<close>; when the navigation is idle, the same
  elements are rendered with \<open>disabled\<close> false and the button shows \<open>Save\<close>. The
  trigger inside the type select does not follow the navigation: in either case its
  \<open>disabled\<close> is the flag \<open>isEdit\<close>, so in edit mode it stays disabled when idle.
\<close>

theorem processing_disables_controls:
  "(navigation hooks = submitting \<or> navigation hooks = loading \<longrightarrow>
      isFormProcessing (navigation hooks)
      \<and> disabled_by_name ''Input'' (CustomFieldForm hooks props st)
          = [(PStr ''name'', PBool True), (PStr ''helpText'', PBool True)]
      \<and> disabled_by_name ''Select'' (CustomFieldForm hooks props st)
          = [(PStr ''type'', PBool True)]
      \<and> map (attribute ''disabled'')
           (elements ''SelectTrigger'' (CustomFieldForm hooks props st))
          = [PBool (isEdit props = Some True)]
      \<and> disabled_by_name ''Switch'' (CustomFieldForm hooks props st)
          = [(PStr ''required'', PBool True), (PStr ''active'', PBool True)]
      \<and> map (\<lambda>e. (attribute ''type'' e, attribute ''disabled'' e, children e))
           (elements ''Button'' (CustomFieldForm hooks props st))
          = [(PStr ''submit'', PBool True, [RElem ''Spinner'' [] []])])
   \<and> (navigation hooks = idle \<longrightarrow>
      \<not> isFormProcessing (navigation hooks)
      \<and> disabled_by_name ''Input'' (CustomFieldForm hooks props st)
          = [(PStr ''name'', PBool False), (PStr ''helpText'', PBool False)]
      \<and> disabled_by_name ''Select'' (CustomFieldForm hooks props st)
          = [(PStr ''type'', PBool False)]
      \<and> map (attribute ''disabled'')
           (elements ''SelectTrigger'' (CustomFieldForm hooks props st))
          = [PBool (isEdit props = Some True)]
      \<and> disabled_by_name ''Switch'' (CustomFieldForm hooks props st)
          = [(PStr ''required'', PBool False), (PStr ''active'', PBool False)]
      \<and> map (\<lambda>e. (attribute ''type'' e, attribute ''disabled'' e, children e))
           (elements ''Button'' (CustomFieldForm hooks props st))
          = [(PStr ''submit'', PBool False, [RText ''Save''])])"
proof -
  let ?T = "CustomFieldForm hooks props st"
  let ?d = "isFormProcessing (navigation hooks)"
  have i: "disabled_by_name ''Input'' ?T =
      [(PStr ''name'', PBool ?d), (PStr ''helpText'', PBool ?d)]"
    by (simp add: disabled_by_name_def render_simps)
  have s: "disabled_by_name ''Select'' ?T = [(PStr ''type'', PBool ?d)]"
    by (simp add: disabled_by_name_def render_simps)
  have t: "map (attribute ''disabled'') (elements ''SelectTrigger'' ?T)
      = [PBool (isEdit props = Some True)]"
    by (cases "isEdit props") (simp_all add: render_simps)
  have w: "disabled_by_name ''Switch'' ?T =
      [(PStr ''required'', PBool ?d), (PStr ''active'', PBool ?d)]"
    by (simp add: disabled_by_name_def render_simps)
  have b: "map (\<lambda>e. (attribute ''type'' e, attribute ''disabled'' e, children e))
           (elements ''Button'' ?T)
          = [(PStr ''submit'', PBool ?d,
              [if ?d then RElem ''Spinner'' [] [] else RText ''Save''])]"
    by (simp add: render_simps)
  show ?thesis
    unfolding i s t w b by (simp add: isFormProcessing_def)
qed

theorem processing_disables_controls_witness:
  "disabled_by_name ''Switch''
     (CustomFieldForm
        \<lparr>navigation = loading, zo_errors_name_message = None, useOrganizationId = ''org1'',
         FIELD_TYPE_NAME = [(TEXT, ''Text''), (OPTION, ''Option'')]\<rparr>
        \<lparr>Props.options = None, name = None, helpText = None, required = None,
         type = None, active = None, isEdit = None\<rparr>
        \<lparr>State.options = [''red''], selectedType = OPTION\<rparr>)
     = [(PStr ''required'', PBool True), (PStr ''active'', PBool True)]
   \<and> map (\<lambda>e. (attribute ''type'' e, attribute ''disabled'' e, children e))
       (elements ''Button''
         (CustomFieldForm
            \<lparr>navigation = idle, zo_errors_name_message = None, useOrganizationId = ''org1'',
             FIELD_TYPE_NAME = [(TEXT, ''Text''), (OPTION, ''Option'')]\<rparr>
            \<lparr>Props.options = Some [''red''], name = Some ''Colour'', helpText = None,
             required = None, type = Some OPTION, active = None, isEdit = Some True\<rparr>
            \<lparr>State.options = [''red''], selectedType = OPTION\<rparr>))
     = [(PStr ''submit'', PBool False, [RText ''Save''])]
   \<and> disabled_by_name ''Select''
         (CustomFieldForm
            \<lparr>navigation = idle, zo_errors_name_message = None, useOrganizationId = ''org1'',
             FIELD_TYPE_NAME = [(TEXT, ''Text''), (OPTION, ''Option'')]\<rparr>
            \<lparr>Props.options = Some [''red''], name = Some ''Colour'', helpText = None,
             required = None, type = Some OPTION, active = None, isEdit = Some True\<rparr>
            \<lparr>State.options = [''red''], selectedType = OPTION\<rparr>)
     = [(PStr ''type'', PBool False)]
   \<and> map (attribute ''disabled'')
       (elements ''SelectTrigger''
         (CustomFieldForm
            \<lparr>navigation = idle, zo_errors_name_message = None, useOrganizationId = ''org1'',
             FIELD_TYPE_NAME = [(TEXT, ''Text''), (OPTION, ''Option'')]\<rparr>
            \<lparr>Props.options = Some [''red''], name = Some ''Colour'', helpText = None,
             required = None, type = Some OPTION, active = None, isEdit = Some True\<rparr>
            \<lparr>State.options = [''red''], selectedType = OPTION\<rparr>))
     = [PBool True]"
  using processing_disables_controls
    [of "\<lparr>navigation = loading, zo_errors_name_message = None, useOrganizationId = ''org1'',
          FIELD_TYPE_NAME = [(TEXT, ''Text''), (OPTION, ''Option'')]\<rparr>"
        "\<lparr>Props.options = None, name = None, helpText = None, required = None,
          type = None, active = None, isEdit = None\<rparr>"
        "\<lparr>State.options = [''red''], selectedType = OPTION\<rparr>"]
    processing_disables_controls
    [of "\<lparr>navigation = idle, zo_errors_name_message = None, useOrganizationId = ''org1'',
          FIELD_TYPE_NAME = [(TEXT, ''Text''), (OPTION, ''Option'')]\<rparr>"
        "\<lparr>Props.options = Some [''red''], name = Some ''Colour'', helpText = None,
          required = None, type = Some OPTION, active = None, isEdit = Some True\<rparr>"
        "\<lparr>State.options = [''red''], selectedType = OPTION\<rparr>"]
  by simp

subsection \<open>The hidden option fields\<close>

text \<open>
  Claim C3. When the selected type is not \<open>OPTION\<close>, no element of the rendered form
  carries a name of the array field \<open>options\<close>, so no \<open>options\<close> entry is submitted.
  When it is \<open>OPTION\<close>, those elements are the hidden inputs, one per option in order,
  the \<open>i\<close>-th named \<open>options[i]\<close> and carrying the \<open>i\<close>-th option as its value.
\<close>

theorem options_fields_only_for_option_type:
  "(selectedType st \<noteq> OPTION \<longrightarrow> option_fields (CustomFieldForm hooks props st) = [])
   \<and> (selectedType st = OPTION \<longrightarrow>
        option_fields (CustomFieldForm hooks props st) =
          map (\<lambda>(i, op).
                 RElem ''input''
                   [(''key'', PNum i), (''type'', PStr ''hidden''),
                    (''name'', PStr (''options['' @ nat_to_string i @ '']'')),
                    (''value'', PStr op)]
                   [])
              (enumerate 0 (State.options st)))"
proof (intro conjI impI)
  assume "selectedType st \<noteq> OPTION"
  then show "option_fields (CustomFieldForm hooks props st) = []"
    by (simp add: option_fields_def CustomFieldForm_def Let_def option_field_select_items
          is_option_field_def)
next
  assume "selectedType st = OPTION"
  then have "option_fields (CustomFieldForm hooks props st) = option_inputs (State.options st)"
    by (simp add: option_fields_def CustomFieldForm_def Let_def option_field_select_items
          descendants_option_inputs option_field_option_inputs is_option_field_def)
  then show "option_fields (CustomFieldForm hooks props st) =
          map (\<lambda>(i, op).
                 RElem ''input''
                   [(''key'', PNum i), (''type'', PStr ''hidden''),
                    (''name'', PStr (''options['' @ nat_to_string i @ '']'')),
                    (''value'', PStr op)]
                   [])
              (enumerate 0 (State.options st))"
    by (simp add: option_inputs_def zo_fields_options_def)
qed

theorem options_fields_only_for_option_type_witness:
  "option_fields
     (CustomFieldForm
        \<lparr>navigation = idle, zo_errors_name_message = None, useOrganizationId = ''org1'',
         FIELD_TYPE_NAME = [(TEXT, ''Text''), (OPTION, ''Option'')]\<rparr>
        \<lparr>Props.options = None, name = None, helpText = None, required = None,
         type = None, active = None, isEdit = None\<rparr>
        \<lparr>State.options = [''red'', ''green''], selectedType = DATE\<rparr>) = []
   \<and> option_fields
     (CustomFieldForm
        \<lparr>navigation = idle, zo_errors_name_message = None, useOrganizationId = ''org1'',
         FIELD_TYPE_NAME = [(TEXT, ''Text''), (OPTION, ''Option'')]\<rparr>
        \<lparr>Props.options = None, name = None, helpText = None, required = None,
         type = None, active = None, isEdit = None\<rparr>
        \<lparr>State.options = [''red'', ''green''], selectedType = OPTION\<rparr>)
     = [RElem ''input''
          [(''key'', PNum 0), (''type'', PStr ''hidden''), (''name'', PStr ''options[0]''),
           (''value'', PStr ''red'')] [],
        RElem ''input''
          [(''key'', PNum 1), (''type'', PStr ''hidden''), (''name'', PStr ''options[1]''),
           (''value'', PStr ''green'')] []]"
  using options_fields_only_for_option_type
    [of "\<lparr>State.options = [''red'', ''green''], selectedType = DATE\<rparr>"
        "\<lparr>navigation = idle, zo_errors_name_message = None, useOrganizationId = ''org1'',
          FIELD_TYPE_NAME = [(TEXT, ''Text''), (OPTION, ''Option'')]\<rparr>"
        "\<lparr>Props.options = None, name = None, helpText = None, required = None,
          type = None, active = None, isEdit = None\<rparr>"]
    options_fields_only_for_option_type
    [of "\<lparr>State.options = [''red'', ''green''], selectedType = OPTION\<rparr>"
        "\<lparr>navigation = idle, zo_errors_name_message = None, useOrganizationId = ''org1'',
          FIELD_TYPE_NAME = [(TEXT, ''Text''), (OPTION, ''Option'')]\<rparr>"
        "\<lparr>Props.options = None, name = None, helpText = None, required = None,
          type = None, active = None, isEdit = None\<rparr>"]
  by (simp add: enumerate_eq_zip)

subsection \<open>The type selector\<close>

text \<open>
  Claim C8. When \<open>isEdit\<close> is true, the trigger of the type selector is rendered
  disabled, while the select that holds it still carries the name \<open>type\<close> and the
  selected type as its value; in edit mode that selected type starts as the type the
  form was given. The select itself is not disabled by \<open>isEdit\<close>: its own
  \<open>disabled\<close> is the processing flag alone, false while the navigation is idle, so
  the field \<open>type\<close> stays part of what the form submits.
\<close>

theorem edit_locks_type_trigger:
  "isEdit props = Some True \<longrightarrow>
     map (attribute ''disabled'') (elements ''SelectTrigger'' (CustomFieldForm hooks props st))
       = [PBool True]
     \<and> map (\<lambda>e. (attribute ''name'' e, attribute ''defaultValue'' e,
                  attribute ''disabled'' e, map (has_tag ''SelectTrigger'') (children e)))
          (elements ''Select'' (CustomFieldForm hooks props st))
       = [(PStr ''type'', PStr (CustomFieldType_value (selectedType st)),
           PBool (isFormProcessing (navigation hooks)), [True, False])]
     \<and> (navigation hooks = idle \<longrightarrow>
          map (attribute ''disabled'') (elements ''Select'' (CustomFieldForm hooks props st))
            = [PBool False])
     \<and> (Props.type props = Some t \<longrightarrow> selectedType (initial_State props) = t)"
proof (intro impI conjI)
  assume e: "isEdit props = Some True"
  then show "map (attribute ''disabled'')
      (elements ''SelectTrigger'' (CustomFieldForm hooks props st)) = [PBool True]"
    by (simp add: render_simps)
  show "map (\<lambda>e. (attribute ''name'' e, attribute ''defaultValue'' e,
                  attribute ''disabled'' e, map (has_tag ''SelectTrigger'') (children e)))
          (elements ''Select'' (CustomFieldForm hooks props st))
       = [(PStr ''type'', PStr (CustomFieldType_value (selectedType st)),
           PBool (isFormProcessing (navigation hooks)), [True, False])]"
    by (simp add: render_simps)
next
  assume "navigation hooks = idle"
  then show "map (attribute ''disabled'')
      (elements ''Select'' (CustomFieldForm hooks props st)) = [PBool False]"
    by (simp add: render_simps isFormProcessing_def)
next
  assume "Props.type props = Some t"
  then show "selectedType (initial_State props) = t"
    by (simp add: initial_State_def)
qed

theorem edit_locks_type_trigger_witness:
  "map (attribute ''disabled'') (elements ''SelectTrigger''
      (CustomFieldForm
         \<lparr>navigation = idle, zo_errors_name_message = None, useOrganizationId = ''org1'',
          FIELD_TYPE_NAME = [(TEXT, ''Text''), (DATE, ''Date'')]\<rparr>
         \<lparr>Props.options = None, name = Some ''Purchased'', helpText = None, required = None,
          type = Some DATE, active = None, isEdit = Some True\<rparr>
         (initial_State
           \<lparr>Props.options = None, name = Some ''Purchased'', helpText = None, required = None,
            type = Some DATE, active = None, isEdit = Some True\<rparr>)))
     = [PBool True]
   \<and> map (\<lambda>e. (attribute ''name'' e, attribute ''defaultValue'' e,
                attribute ''disabled'' e, map (has_tag ''SelectTrigger'') (children e)))
      (elements ''Select''
      (CustomFieldForm
         \<lparr>navigation = idle, zo_errors_name_message = None, useOrganizationId = ''org1'',
          FIELD_TYPE_NAME = [(TEXT, ''Text''), (DATE, ''Date'')]\<rparr>
         \<lparr>Props.options = None, name = Some ''Purchased'', helpText = None, required = None,
          type = Some DATE, active = None, isEdit = Some True\<rparr>
         (initial_State
           \<lparr>Props.options = None, name = Some ''Purchased'', helpText = None, required = None,
            type = Some DATE, active = None, isEdit = Some True\<rparr>)))
     = [(PStr ''type'', PStr ''DATE'', PBool False, [True, False])]"
  using edit_locks_type_trigger [of
         "\<lparr>Props.options = None, name = Some ''Purchased'', helpText = None, required = None,
          type = Some DATE, active = None, isEdit = Some True\<rparr>"
         "\<lparr>navigation = idle, zo_errors_name_message = None, useOrganizationId = ''org1'',
          FIELD_TYPE_NAME = [(TEXT, ''Text''), (DATE, ''Date'')]\<rparr>"
         "initial_State
           \<lparr>Props.options = None, name = Some ''Purchased'', helpText = None, required = None,
            type = Some DATE, active = None, isEdit = Some True\<rparr>" DATE]
  by (simp add: initial_State_def isFormProcessing_def)

text \<open>
  Claim C10. With no initial \<open>type\<close>, the selected type starts as \<open>TEXT\<close>: at the first
  render the type select has the default value \<open>TEXT\<close> and the description shown is
  that of \<open>TEXT\<close>.
\<close>

theorem default_type_is_text:
  "Props.type props = None \<longrightarrow>
     selectedType (initial_State props) = TEXT
     \<and> map (attribute ''defaultValue'')
          (elements ''Select'' (CustomFieldForm hooks props (initial_State props)))
        = [PStr ''TEXT'']
     \<and> map children (elements ''p'' (CustomFieldForm hooks props (initial_State props)))
        = [[RText (FIELD_TYPE_DESCRIPTION TEXT)],
           [RText ''Deactivating a field will no longer show it on the asset form and page'']]"
  by (simp add: render_simps initial_State_def)

theorem default_type_is_text_witness:
  "selectedType (initial_State
      \<lparr>Props.options = None, name = None, helpText = None, required = None,
       type = None, active = None, isEdit = None\<rparr>) = TEXT
   \<and> map (attribute ''defaultValue'')
        (elements ''Select''
          (CustomFieldForm
            \<lparr>navigation = idle, zo_errors_name_message = None, useOrganizationId = ''org1'',
             FIELD_TYPE_NAME = [(TEXT, ''Text''), (OPTION, ''Option'')]\<rparr>
            \<lparr>Props.options = None, name = None, helpText = None, required = None,
             type = None, active = None, isEdit = None\<rparr>
            (initial_State
              \<lparr>Props.options = None, name = None, helpText = None, required = None,
               type = None, active = None, isEdit = None\<rparr>)))
     = [PStr ''TEXT'']"
  using default_type_is_text
    [of "\<lparr>Props.options = None, name = None, helpText = None, required = None,
          type = None, active = None, isEdit = None\<rparr>"
        "\<lparr>navigation = idle, zo_errors_name_message = None, useOrganizationId = ''org1'',
          FIELD_TYPE_NAME = [(TEXT, ''Text''), (OPTION, ''Option'')]\<rparr>"]
  by simp

section \<open>Properties of the option list handlers\<close>

text \<open>
  Claim C4. For a list of more than one option and an index \<open>i\<close> within it, the remove
  handler leaves the list without its entry at \<open>i\<close>: the entries before \<open>i\<close> keep their
  places, those after move one place down, and the list is one shorter. The selected
  type is unchanged.
\<close>

theorem onRemove_excludes_entry:
  assumes "1 < length (State.options st)" and "0 \<le> i" and "i < int (length (State.options st))"
  shows "State.options (onRemove i st)
           = take (nat i) (State.options st) @ drop (Suc (nat i)) (State.options st)
       \<and> length (State.options (onRemove i st)) = length (State.options st) - 1
       \<and> (\<forall>j < nat i. State.options (onRemove i st) ! j = State.options st ! j)
       \<and> (\<forall>j. nat i \<le> j \<and> j < length (State.options st) - 1 \<longrightarrow>
              State.options (onRemove i st) ! j = State.options st ! Suc j)
       \<and> selectedType (onRemove i st) = selectedType st"
proof -
  have e: "State.options (onRemove i st)
           = take (nat i) (State.options st) @ drop (Suc (nat i)) (State.options st)"
    using assms by (simp add: onRemove_def splice_def Let_def nat_add_distrib)
  show ?thesis
    unfolding e using assms by (auto simp: nth_append onRemove_def min_def)
qed

theorem onRemove_excludes_entry_witness:
  "State.options
     (onRemove 1 \<lparr>State.options = [''red'', ''green'', ''blue''], selectedType = OPTION\<rparr>)
     = [''red'', ''blue'']"
  using onRemove_excludes_entry
    [of "\<lparr>State.options = [''red'', ''green'', ''blue''], selectedType = OPTION\<rparr>" 1]
  by simp

end
